theory Spec2Isabelle
  imports Main "HOL-Library.Word"
begin

section \<open>Values of the runtime\<close>

text \<open>
  The server driver is TypeScript on the Bun runtime. The values it handles are modelled
  by trees of JavaScript values: \<open>undefined\<close>, \<open>null\<close>, booleans, numbers, strings,
  BigInts, arrays and objects. An object is the list of its own enumerable string-keyed
  properties, in enumeration order. A number is a 32-bit integer, read as a signed value;
  the other numbers of the runtime are floating point and have no place in this
  embedding.
\<close>

datatype js_value =
    JSUndefined
  | JSNull
  | JSBoolean bool
  | JSNumber "32 word"
  | JSString string
  | JSBigInt int
  | JSArray "js_value list"
  | JSObject "(string \<times> js_value) list"

type_synonym payload = "(string \<times> js_value) list"

text \<open>The errors that the builtins used by the driver throw.\<close>

datatype js_error = TypeError | RangeError

subsection \<open>The builtin \<open>JSON.stringify\<close>\<close>

text \<open>
  \<open>JSON.stringify\<close> belongs to the runtime, not to the repository. It is written out
  here on the values above so that responses can be computed. A string is quoted, with
  the quotation mark, the backslash and the control characters below 0x20 escaped; a
  number is written in decimal; an array is \<open>[v,...]\<close>, with \<open>null\<close> for an element
  that is \<open>undefined\<close>; an object is \<open>{"k":v,...}\<close>, without the properties whose value
  is \<open>undefined\<close> and with no white space; the value \<open>undefined\<close> alone has no
  serialization (\<open>None\<close>); a BigInt anywhere makes the builtin throw \<open>TypeError\<close>.
\<close>

text \<open>A hexadecimal digit, in lower case; it is asked for digits below 16 only.\<close>

definition hex_digit :: "nat \<Rightarrow> char" where
  "hex_digit n = ''0123456789abcdef'' ! n"

definition QuoteJSONChar :: "char \<Rightarrow> string" where
  "QuoteJSONChar c =
     (let n = (of_char c :: nat) in
      if n = 0x22 then [CHR 0x5C, CHR 0x22]
      else if n = 0x5C then [CHR 0x5C, CHR 0x5C]
      else if n = 0x08 then [CHR 0x5C, CHR ''b'']
      else if n = 0x0C then [CHR 0x5C, CHR ''f'']
      else if n = 0x0A then [CHR 0x5C, CHR ''n'']
      else if n = 0x0D then [CHR 0x5C, CHR ''r'']
      else if n = 0x09 then [CHR 0x5C, CHR ''t'']
      else if n < 0x20 then
        [CHR 0x5C, CHR ''u'', CHR ''0'', CHR ''0'', hex_digit (n div 16), hex_digit (n mod 16)]
      else [c])"

definition QuoteJSONString :: "string \<Rightarrow> string" where
  "QuoteJSONString s = [CHR 0x22] @ concat (map QuoteJSONChar s) @ [CHR 0x22]"

function decimal :: "nat \<Rightarrow> string" where
  "decimal n =
     (if n < 10 then [''0123456789'' ! n]
      else decimal (n div 10) @ [''0123456789'' ! (n mod 10)])"
  by pat_completeness auto
termination
  by (relation "measure id") auto

declare decimal.simps [simp del]

definition NumberToString :: "int \<Rightarrow> string" where
  "NumberToString i = (if i < 0 then ''-'' @ decimal (nat (- i)) else decimal (nat i))"

fun join :: "string \<Rightarrow> string list \<Rightarrow> string" where
  "join sep [] = []"
| "join sep [x] = x"
| "join sep (x # y # ys) = x @ sep @ join sep (y # ys)"

text \<open>The results of a list of calls: the first error thrown, or all the values.\<close>

fun all_results :: "(js_error + 'a) list \<Rightarrow> js_error + 'a list" where
  "all_results [] = Inr []"
| "all_results (Inl e # rs) = Inl e"
| "all_results (Inr v # rs) = (case all_results rs of Inl e \<Rightarrow> Inl e | Inr vs \<Rightarrow> Inr (v # vs))"

text \<open>The members of an object: a property without serialization is left out.\<close>

fun members :: "(string \<times> string option) list \<Rightarrow> string list" where
  "members [] = []"
| "members ((k, None) # ps) = members ps"
| "members ((k, Some text) # ps) = (QuoteJSONString k @ '':'' @ text) # members ps"

fun JSON_stringify :: "js_value \<Rightarrow> js_error + string option" where
  "JSON_stringify JSUndefined = Inr None"
| "JSON_stringify JSNull = Inr (Some ''null'')"
| "JSON_stringify (JSBoolean b) = Inr (Some (if b then ''true'' else ''false''))"
| "JSON_stringify (JSNumber w) = Inr (Some (NumberToString (sint w)))"
| "JSON_stringify (JSString s) = Inr (Some (QuoteJSONString s))"
| "JSON_stringify (JSBigInt i) = Inl TypeError"
| "JSON_stringify (JSArray vs) =
     (case all_results (map JSON_stringify vs) of
        Inl e \<Rightarrow> Inl e
      | Inr texts \<Rightarrow>
          Inr (Some (''['' @ join '','' (map (\<lambda>t. case t of None \<Rightarrow> ''null'' | Some text \<Rightarrow> text) texts)
                     @ '']'')))"
| "JSON_stringify (JSObject kvs) =
     (case all_results (map (\<lambda>kv. JSON_stringify (snd kv)) kvs) of
        Inl e \<Rightarrow> Inl e
      | Inr texts \<Rightarrow> Inr (Some (''{'' @ join '','' (members (zip (map fst kvs) texts)) @ ''}'')))"

section \<open>Data of the server driver\<close>

text \<open>The \<open>Request\<close> of the runtime; the driver reads its \<open>url\<close> only.\<close>

record Request =
  url :: string

text \<open>
  The Bun \<open>Server\<close>; the driver uses its \<open>upgrade\<close> entry point only, which answers
  whether the handshake succeeded.
\<close>

record Server =
  upgrade :: "Request \<Rightarrow> bool"

text \<open>
  A \<open>Response\<close>: the body, the headers of \<open>init\<close> as the code writes them, and the
  status.
\<close>

record Response =
  body :: string
  headers :: "(string \<times> string) list"
  status :: int

text \<open>
  The constructor \<open>new Response(body, init)\<close> of the runtime. It throws \<open>RangeError\<close>
  unless the status is 101 or lies in 200..599. A body that is \<open>undefined\<close> (\<open>None\<close>) is
  the empty body.
\<close>

definition new_Response ::
  "string option \<Rightarrow> (string \<times> string) list \<Rightarrow> int \<Rightarrow> js_error + Response" where
  "new_Response body' headers' status' =
     (if status' = 101 \<or> (200 \<le> status' \<and> status' \<le> 599)
      then Inr \<lparr>body = (case body' of None \<Rightarrow> [] | Some text \<Rightarrow> text),
                headers = headers', status = status'\<rparr>
      else Inl RangeError)"

text \<open>
  A function of the driver either throws or returns. \<open>returned r\<close> is the \<open>return\<close> of
  the value of a call \<open>r\<close>: an error thrown by the call passes through.
\<close>

definition returned :: "js_error + 'a \<Rightarrow> js_error + 'a option" where
  "returned r = (case r of Inl e \<Rightarrow> Inl e | Inr v \<Rightarrow> Inr (Some v))"

text \<open>
  \<open>ServerDriver.json\<close>. The argument \<open>JSON.stringify(payload)\<close> is evaluated first, then
  the constructor is called.
\<close>

definition json :: "payload \<Rightarrow> int \<Rightarrow> js_error + Response" where
  "json payload status' =
     (case JSON_stringify (JSObject payload) of
        Inl e \<Rightarrow> Inl e
      | Inr text \<Rightarrow> new_Response text [(''content-type'', ''application/json'')] status')"

text \<open>
  The collaborators that a context or the driver holds (\<open>WebSocketDriver\<close>,
  \<open>AuthorizationDriver\<close>, \<open>ServerLogger\<close>, the interface object) are objects of other
  modules. The driver stores them and passes them on; it is a reference that is stored.
\<close>

type_synonym ref = nat

text \<open>\<open>RouteHandleContext\<close>: the object literal built for every dispatched route.\<close>

record RouteHandleContext =
  authLevelForRequestedRoute :: int
  request :: Request
  server :: Server
  WebSocketDriver :: ref
  AuthorizationDriver :: ref
  ServerDriverInterface :: ref

text \<open>
  Modelled from the spec: the enum \<open>RouteType\<close> is declared in \<open>type-def/enums\<close>, which is
  not among the sources; the driver names its members \<open>WEB\<close> and \<open>WEB_SOCKET\<close>, the spec's
  REQUEST_RESPONSE and PERSISTENT_CONNECTION.
\<close>

datatype RouteType = WEB | WEB_SOCKET

text \<open>
  A route handle is code of the application. \<open>handle\<close> gives what the handle returns for
  a context (\<open>None\<close> is JavaScript's \<open>undefined\<close>, the result of a handle that answers
  nothing); \<open>onUpgradeSuccess\<close> and \<open>onUpgradeFailed\<close> return nothing, so that a call of
  them is visible as an event only. The code of the application and of the other modules
  is taken to return.
\<close>

record RouteHandle =
  handle :: "RouteHandleContext \<Rightarrow> Response option"

record Route =
  path :: string
  type :: RouteType
  authLevel :: int
  handler :: RouteHandle

text \<open>
  The calls that leave the driver, in the order in which they are made. A function of the
  driver returns its result together with the list of the calls it made.
\<close>

datatype event =
    FindInRouteRegistry string
  | StartMiddleware RouteHandleContext
  | Handle RouteHandleContext
  | OnUpgradeFailed
  | OnUpgradeSuccess
  | LoggerInfo string
  | LoggerError string
  | ServerUpgrade Request
  | ConsoleLog bool

text \<open>
  The fields of \<open>ServerDriver\<close>. \<open>RouteDriver\<close> and \<open>MiddlewareDriver\<close> are other modules:
  the driver calls \<open>findInRouteRegistry\<close> (\<open>None\<close> is \<open>undefined\<close>) and
  \<open>startMiddleware\<close>. The context is a mutable object that the middleware receives by
  reference, so \<open>startMiddleware\<close> returns the context as it leaves it, beside its result.
\<close>

record ServerDriver =
  findInRouteRegistry :: "string \<Rightarrow> Route option"
  startMiddleware :: "RouteHandleContext \<Rightarrow> js_value \<times> RouteHandleContext"
  bunWebSocketHandler :: ref
  this_WebSocketDriver :: ref
  this_AuthorizationDriver :: ref
  this_ServerDriverInterface :: ref
  this_ServerLogger :: ref
  this_port :: nat
  this_rootUrl :: string

section \<open>Operations of the server driver\<close>

text \<open>\<open>ServerDriver.getLogger\<close>\<close>

definition getLogger :: "ServerDriver \<Rightarrow> ref" where
  "getLogger this = this_ServerLogger this"

text \<open>
  \<open>ServerDriver.serve\<close>: the options handed to \<open>Bun.serve\<close>. The \<open>fetch\<close> handler is the
  arrow function written in place; the call of \<open>bunFetchHandler\<close> is commented out.
\<close>

record BunServeOptions =
  fetch :: "Request \<Rightarrow> Server \<Rightarrow> (js_error + Response option) \<times> event list"
  websocket :: ref
  port :: nat

definition serve :: "ServerDriver \<Rightarrow> BunServeOptions" where
  "serve this =
     \<lparr>fetch = (\<lambda>req server'.
        if upgrade server' req then (Inr None, [ServerUpgrade req])
        else (returned (new_Response (Some ''Not Found'') [] 404), [ServerUpgrade req])),
      websocket = bunWebSocketHandler this,
      port = this_port this\<rparr>"

text \<open>\<open>ServerDriver.handleWebRoute\<close>\<close>

definition handleWebRoute ::
  "ServerDriver \<Rightarrow> Request \<Rightarrow> Server \<Rightarrow> Route \<Rightarrow> (js_error + Response option) \<times> event list"
  where
  "handleWebRoute this req server' route =
     (let context =
            \<lparr>authLevelForRequestedRoute = authLevel route,
             request = req,
             server = server',
             WebSocketDriver = this_WebSocketDriver this,
             AuthorizationDriver = this_AuthorizationDriver this,
             ServerDriverInterface = this_ServerDriverInterface this\<rparr>;
          (res, context') = startMiddleware this context
      in if res = JSBoolean False
         then (returned (json [(''message'', JSString ''Forbidden.'')] 403),
               [StartMiddleware context])
         else (Inr (handle (handler route) context'),
               [StartMiddleware context, Handle context']))"

text \<open>
  \<open>ServerDriver.handleWebSocketRoute\<close>. The condition of the branch is the literal
  \<open>false\<close>; the calls of \<open>upgrade2WebSocket\<close> and of \<open>startMiddleware\<close> are commented out.
  The function has no \<open>return\<close>: its result is \<open>undefined\<close>.
\<close>

definition handleWebSocketRoute ::
  "ServerDriver \<Rightarrow> Request \<Rightarrow> Server \<Rightarrow> Route \<Rightarrow> (js_error + Response option) \<times> event list"
  where
  "handleWebSocketRoute this req server' route =
     (let context =
            \<lparr>authLevelForRequestedRoute = authLevel route,
             request = req,
             server = server',
             WebSocketDriver = this_WebSocketDriver this,
             AuthorizationDriver = this_AuthorizationDriver this,
             ServerDriverInterface = this_ServerDriverInterface this\<rparr>
      in (Inr None,
          [LoggerInfo (''WebSocket route '' @ path route @ '' connected''),
           LoggerInfo ''context initialized'',
           Handle context]
          @ (if False
             then [LoggerError ''Failed to upgrade request to websocket.'', OnUpgradeFailed]
             else [LoggerInfo ''Upgraded request to websocket.'', OnUpgradeSuccess])))"

text \<open>\<open>ServerDriver.bunFetchHandler\<close>\<close>

definition bunFetchHandler ::
  "ServerDriver \<Rightarrow> Request \<Rightarrow> Server \<Rightarrow> (js_error + Response option) \<times> event list" where
  "bunFetchHandler this req server' =
     (case findInRouteRegistry this (url req) of
        None \<Rightarrow>
          (returned (new_Response (Some ''Not Found'') [] 404),
           [FindInRouteRegistry (url req)])
      | Some route \<Rightarrow>
          (case type route of
             WEB \<Rightarrow>
               (let (r, evs) = handleWebRoute this req server' route
                in (r, FindInRouteRegistry (url req) # evs))
           | WEB_SOCKET \<Rightarrow>
               (let (r, evs) = handleWebSocketRoute this req server' route
                in (r, FindInRouteRegistry (url req) # evs))))"

text \<open>
  \<open>ServerDriver.upgrade2WebSocket\<close>: the 403 response when the transport refuses, the
  value \<open>true\<close> otherwise.
\<close>

definition upgrade2WebSocket ::
  "Request \<Rightarrow> Server \<Rightarrow> (js_error + (Response + bool)) \<times> event list" where
  "upgrade2WebSocket req server' =
     (let upgrade' = upgrade server' req
      in if upgrade' = False
         then (map_sum id Inl (json [(''message'', JSString ''Forbidden.'')] 403),
               [ServerUpgrade req, ConsoleLog upgrade'])
         else (Inr (Inr upgrade'), [ServerUpgrade req, ConsoleLog upgrade']))"

section \<open>Middleware chain and route registry\<close>

text \<open>
  Modelled from the spec: the Middleware Chain. \<open>MiddlewareDriver\<close> is imported from
  \<open>middleware/middleware-driver\<close>, which is not among the sources; only its caller is. By
  the spec a link is a unit \<open>(Context) \<rightarrow> boolean\<close> that may augment the context; links
  run in registration order on one exchange, the first link that rejects stops the chain,
  and a chain with no link accepts. The links that ran are recorded by their position in
  the chain, counted from the first argument of \<open>run_from\<close>.
\<close>

datatype ChainResult = Accepted | Rejected

type_synonym 'c MiddlewareLink = "'c \<Rightarrow> bool \<times> 'c"

fun run_from :: "nat \<Rightarrow> 'c MiddlewareLink list \<Rightarrow> 'c \<Rightarrow> ChainResult \<times> 'c \<times> nat list" where
  "run_from i [] c = (Accepted, c, [])"
| "run_from i (l # ls) c =
     (case l c of
        (False, c') \<Rightarrow> (Rejected, c', [i])
      | (True, c') \<Rightarrow>
          (case run_from (Suc i) ls c' of (r, c'', later) \<Rightarrow> (r, c'', i # later)))"

definition run :: "'c MiddlewareLink list \<Rightarrow> 'c \<Rightarrow> ChainResult \<times> 'c \<times> nat list" where
  "run links c = run_from 1 links c"

text \<open>
  The context that reaches the link at position \<open>j\<close> (counted from 0) when every link
  before it has run.
\<close>

fun context_before :: "'c MiddlewareLink list \<Rightarrow> 'c \<Rightarrow> nat \<Rightarrow> 'c" where
  "context_before [] c j = c"
| "context_before (l # ls) c 0 = c"
| "context_before (l # ls) c (Suc j) = context_before ls (snd (l c)) j"

text \<open>The verdict of the \<open>k\<close>-th link of the chain, \<open>k\<close> counted from 1.\<close>

definition link_accepts :: "'c MiddlewareLink list \<Rightarrow> 'c \<Rightarrow> nat \<Rightarrow> bool" where
  "link_accepts links c k = fst ((links ! (k - 1)) (context_before links c (k - 1)))"

text \<open>
  Modelled from the spec: the Route Registry. \<open>RouteDriver\<close> is imported from
  \<open>route/route-driver\<close>, which is not among the sources. By the spec,
  \<open>register(route) \<rightarrow> ok | DuplicatePathError\<close> and \<open>resolve(path) \<rightarrow> Route | NotFound\<close>,
  an exact-path lookup; registering a path twice fails and does not overwrite. The
  registry is a map from paths to routes, and \<open>register\<close> returns it as it is afterwards.
\<close>

datatype RegistryError = DuplicatePathError

type_synonym RouteRegistry = "string \<rightharpoonup> Route"

definition resolve :: "RouteRegistry \<Rightarrow> string \<Rightarrow> Route option" where
  "resolve registry p = registry p"

definition register :: "RouteRegistry \<Rightarrow> Route \<Rightarrow> (RegistryError + unit) \<times> RouteRegistry" where
  "register registry route =
     (case registry (path route) of
        Some original \<Rightarrow> (Inl DuplicatePathError, registry)
      | None \<Rightarrow> (Inr (), registry(path route \<mapsto> route)))"

section \<open>Sample configurations\<close>

text \<open>
  A registry with the request/response route \<open>/health\<close>, whose handler answers what
  \<open>json({status: "ok"}, 200)\<close> returns, and the web-socket route
  \<open>/chat\<close>, a transport that accepts every handshake and one that refuses every
  handshake, a middleware that lets every exchange pass and one that rejects every
  exchange.
\<close>

definition health_route :: Route where
  \<open>health_route =
     \<lparr>path = ''/health'', type = WEB, authLevel = 0,
      handler = \<lparr>handle = (\<lambda>context.
        Some \<lparr>body = ''{"status":"ok"}'', headers = [(''content-type'', ''application/json'')],
              status = 200\<rparr>)\<rparr>\<rparr>\<close>

definition chat_route :: Route where
  "chat_route =
     \<lparr>path = ''/chat'', type = WEB_SOCKET, authLevel = 1,
      handler = \<lparr>handle = (\<lambda>context. None)\<rparr>\<rparr>"

definition sample_registry :: "string \<Rightarrow> Route option" where
  "sample_registry p =
     (if p = ''/health'' then Some health_route
      else if p = ''/chat'' then Some chat_route
      else None)"

definition accepting_server :: Server where
  "accepting_server = \<lparr>upgrade = (\<lambda>req. True)\<rparr>"

definition refusing_server :: Server where
  "refusing_server = \<lparr>upgrade = (\<lambda>req. False)\<rparr>"

definition passing_driver :: ServerDriver where
  "passing_driver =
     \<lparr>findInRouteRegistry = sample_registry,
      startMiddleware = (\<lambda>context. (JSBoolean True, context)),
      bunWebSocketHandler = 0, this_WebSocketDriver = 1, this_AuthorizationDriver = 2,
      this_ServerDriverInterface = 3, this_ServerLogger = 4, this_port = 3000,
      this_rootUrl = ''/''\<rparr>"

definition rejecting_driver :: ServerDriver where
  "rejecting_driver =
     \<lparr>findInRouteRegistry = sample_registry,
      startMiddleware = (\<lambda>context. (JSBoolean False, context)),
      bunWebSocketHandler = 0, this_WebSocketDriver = 1, this_AuthorizationDriver = 2,
      this_ServerDriverInterface = 3, this_ServerLogger = 4, this_port = 3000,
      this_rootUrl = ''/''\<rparr>"

text \<open>
  A driver whose middleware returns \<open>null\<close> and replaces the authorization driver of
  the context it was given.
\<close>

definition tagging_driver :: ServerDriver where
  "tagging_driver =
     \<lparr>findInRouteRegistry = sample_registry,
      startMiddleware = (\<lambda>context. (JSNull, context\<lparr>AuthorizationDriver := 7\<rparr>)),
      bunWebSocketHandler = 0, this_WebSocketDriver = 1, this_AuthorizationDriver = 2,
      this_ServerDriverInterface = 3, this_ServerLogger = 4, this_port = 3000,
      this_rootUrl = ''/''\<rparr>"

text \<open>
  A chain of three links over a counter: the first accepts, the second rejects, the third
  would accept; each adds its own amount to the counter.
\<close>

definition sample_links :: "nat MiddlewareLink list" where
  "sample_links = [(\<lambda>c. (True, c + 1)), (\<lambda>c. (False, c + 10)), (\<lambda>c. (True, c + 100))]"

text \<open>
  A chain of two links that both accept and do not commute: the first adds one to the
  counter, the second doubles it.
\<close>

definition passing_links :: "nat MiddlewareLink list" where
  "passing_links = [(\<lambda>c. (True, c + 1)), (\<lambda>c. (True, 2 * c))]"

section \<open>Reading the calls of a dispatch\<close>

text \<open>
  The object literal that \<open>handleWebRoute\<close> and \<open>handleWebSocketRoute\<close> both write:
  the context as the dispatcher builds it.
\<close>

definition built_context ::
  "ServerDriver \<Rightarrow> Request \<Rightarrow> Server \<Rightarrow> Route \<Rightarrow> RouteHandleContext" where
  "built_context this req server' route =
     \<lparr>authLevelForRequestedRoute = authLevel route,
      request = req,
      server = server',
      WebSocketDriver = this_WebSocketDriver this,
      AuthorizationDriver = this_AuthorizationDriver this,
      ServerDriverInterface = this_ServerDriverInterface this\<rparr>"

text \<open>The contexts with which \<open>route.handler.handle\<close> was called, in order.\<close>

fun handle_calls :: "event list \<Rightarrow> RouteHandleContext list" where
  "handle_calls [] = []"
| "handle_calls (Handle c # evs) = c # handle_calls evs"
| "handle_calls (e # evs) = handle_calls evs"

text \<open>
  The contexts that the dispatcher gave away, to the middleware or to the handler, in
  order.
\<close>

fun passed_contexts :: "event list \<Rightarrow> RouteHandleContext list" where
  "passed_contexts [] = []"
| "passed_contexts (StartMiddleware c # evs) = c # passed_contexts evs"
| "passed_contexts (Handle c # evs) = c # passed_contexts evs"
| "passed_contexts (e # evs) = passed_contexts evs"

text \<open>Whether a response declares the content type \<open>application/json\<close>.\<close>

definition json_content_type :: "Response \<Rightarrow> bool" where
  "json_content_type r = (map_of (headers r) ''content-type'' = Some ''application/json'')"

section \<open>The dispatcher, unfolded\<close>

lemma json_forbidden:
  \<open>json [(''message'', JSString ''Forbidden.'')] 403
   = Inr \<lparr>body = ''{"message":"Forbidden."}'',
          headers = [(''content-type'', ''application/json'')], status = 403\<rparr>\<close>
  by (simp add: json_def new_Response_def QuoteJSONString_def QuoteJSONChar_def)

lemma not_found_response:
  "new_Response (Some ''Not Found'') [] 404
   = Inr \<lparr>body = ''Not Found'', headers = [], status = 404\<rparr>"
  by (simp add: new_Response_def)

lemma handleWebRoute_unfold:
  "handleWebRoute this req srv route =
     (if fst (startMiddleware this (built_context this req srv route)) = JSBoolean False
      then (returned (json [(''message'', JSString ''Forbidden.'')] 403),
            [StartMiddleware (built_context this req srv route)])
      else (Inr (handle (handler route) (snd (startMiddleware this (built_context this req srv route)))),
            [StartMiddleware (built_context this req srv route),
             Handle (snd (startMiddleware this (built_context this req srv route)))]))"
  by (simp add: handleWebRoute_def built_context_def Let_def split_beta)

lemma handleWebSocketRoute_unfold:
  "handleWebSocketRoute this req srv route =
     (Inr None,
      [LoggerInfo (''WebSocket route '' @ path route @ '' connected''),
       LoggerInfo ''context initialized'',
       Handle (built_context this req srv route),
       LoggerInfo ''Upgraded request to websocket.'',
       OnUpgradeSuccess])"
  by (simp add: handleWebSocketRoute_def built_context_def Let_def)

lemma bunFetchHandler_unfold:
  "bunFetchHandler this req srv =
     (case findInRouteRegistry this (url req) of
        None \<Rightarrow>
          (Inr (Some \<lparr>body = ''Not Found'', headers = [], status = 404\<rparr>),
           [FindInRouteRegistry (url req)])
      | Some route \<Rightarrow>
          (case type route of
             WEB \<Rightarrow>
               (fst (handleWebRoute this req srv route),
                FindInRouteRegistry (url req) # snd (handleWebRoute this req srv route))
           | WEB_SOCKET \<Rightarrow>
               (fst (handleWebSocketRoute this req srv route),
                FindInRouteRegistry (url req) # snd (handleWebSocketRoute this req srv route))))"
  by (simp add: bunFetchHandler_def not_found_response returned_def split_beta
      split: option.split RouteType.split)

lemma sample_health_registered:
  "findInRouteRegistry passing_driver (url \<lparr>url = ''/health''\<rparr>) = Some health_route"
  "findInRouteRegistry rejecting_driver (url \<lparr>url = ''/health''\<rparr>) = Some health_route"
  "findInRouteRegistry tagging_driver (url \<lparr>url = ''/health''\<rparr>) = Some health_route"
  by (simp_all add: passing_driver_def rejecting_driver_def tagging_driver_def sample_registry_def)

lemma sample_health_web: "type health_route = WEB"
  by (simp add: health_route_def)

section \<open>Response builder\<close>

lemma JSON_stringify_object:
  "JSON_stringify (JSObject kvs) = Inr text \<Longrightarrow>
   \<exists>inner. text = Some (''{'' @ inner @ ''}'')"
  by (auto split: sum.splits)

text \<open>
  C6. For every payload that \<open>JSON.stringify\<close> serializes and every status that is 101
  or lies in 200..599, \<open>json payload status\<close> returns a response whose body is the JSON
  serialization of the payload (an object text, from \<open>{\<close> to \<open>}\<close>), whose only header is
  \<open>content-type: application/json\<close> and whose status is the one supplied. For any other
  status the constructor throws \<open>RangeError\<close>, and for a payload that the serializer
  refuses \<open>json\<close> throws what the serializer throws; no response is returned then. An
  object always has a serialization. \<open>json\<close> is a function of its two arguments alone:
  it reads no state and makes no call that leaves the driver.
\<close>

theorem json_response:
  "(JSON_stringify (JSObject payload) = Inr (Some text)
      \<and> (st = 101 \<or> (200 \<le> st \<and> st \<le> 599))
    \<longrightarrow> json payload st
          = Inr \<lparr>body = text, headers = [(''content-type'', ''application/json'')], status = st\<rparr>
        \<and> hd text = CHR ''{'' \<and> last text = CHR ''}'')
   \<and> (JSON_stringify (JSObject payload) = Inr (Some text)
      \<and> \<not> (st = 101 \<or> (200 \<le> st \<and> st \<le> 599))
    \<longrightarrow> json payload st = Inl RangeError)
   \<and> (JSON_stringify (JSObject payload) = Inl e \<longrightarrow> json payload st = Inl e)
   \<and> JSON_stringify (JSObject payload) \<noteq> Inr None"
proof (intro conjI impI)
  assume ok: "JSON_stringify (JSObject payload) = Inr (Some text)
      \<and> (st = 101 \<or> (200 \<le> st \<and> st \<le> 599))"
  then show "json payload st
      = Inr \<lparr>body = text, headers = [(''content-type'', ''application/json'')], status = st\<rparr>"
    by (auto simp: json_def new_Response_def)
  from ok JSON_stringify_object [of payload "Some text"]
  obtain inner where "text = ''{'' @ inner @ ''}''" by auto
  then show "hd text = CHR ''{''" and "last text = CHR ''}''" by simp_all
next
  assume "JSON_stringify (JSObject payload) = Inr (Some text)
      \<and> \<not> (st = 101 \<or> (200 \<le> st \<and> st \<le> 599))"
  then show "json payload st = Inl RangeError"
    by (auto simp: json_def new_Response_def)
next
  assume "JSON_stringify (JSObject payload) = Inl e"
  then show "json payload st = Inl e"
    by (simp add: json_def)
next
  show "JSON_stringify (JSObject payload) \<noteq> Inr None"
    using JSON_stringify_object [of payload None] by auto
qed

text \<open>
  The response of the \<open>/health\<close> scenario, \<open>json({status: "ok"}, 200)\<close>, and a payload
  with a property that is \<open>undefined\<close>, a negative number and an array.
\<close>

theorem json_response_witness:
  \<open>JSON_stringify (JSObject [(''status'', JSString ''ok'')]) = Inr (Some ''{"status":"ok"}'')
   \<and> json [(''status'', JSString ''ok'')] 200
       = Inr \<lparr>body = ''{"status":"ok"}'', headers = [(''content-type'', ''application/json'')],
              status = 200\<rparr>
   \<and> json [(''status'', JSString ''ok'')] 99 = Inl RangeError
   \<and> json [(''gone'', JSUndefined), (''n'', JSNumber (- 12)),
            (''xs'', JSArray [JSUndefined, JSBoolean True])] 201
       = Inr \<lparr>body = ''{"n":-12,"xs":[null,true]}'',
              headers = [(''content-type'', ''application/json'')], status = 201\<rparr>\<close>
proof -
  have ser: \<open>JSON_stringify (JSObject [(''status'', JSString ''ok'')])
      = Inr (Some ''{"status":"ok"}'')\<close>
    by (simp add: QuoteJSONString_def QuoteJSONChar_def)
  have ser2: \<open>JSON_stringify (JSObject [(''gone'', JSUndefined), (''n'', JSNumber (- 12)),
            (''xs'', JSArray [JSUndefined, JSBoolean True])])
      = Inr (Some ''{"n":-12,"xs":[null,true]}'')\<close>
    by (simp add: QuoteJSONString_def QuoteJSONChar_def NumberToString_def decimal.simps)
  note at_200 = json_response [of "[(''status'', JSString ''ok'')]" _ 200, THEN conjunct1, THEN mp,
      THEN conjunct1, OF conjI, OF ser]
  note at_99 = json_response [of "[(''status'', JSString ''ok'')]" _ 99, THEN conjunct2,
      THEN conjunct1, THEN mp, OF conjI, OF ser]
  note at_201 = json_response [of _ _ 201, THEN conjunct1, THEN mp, THEN conjunct1, OF conjI,
      OF ser2]
  have a: \<open>json [(''status'', JSString ''ok'')] 200
       = Inr \<lparr>body = ''{"status":"ok"}'', headers = [(''content-type'', ''application/json'')],
              status = 200\<rparr>\<close>
    by (rule at_200) simp
  have b: "json [(''status'', JSString ''ok'')] 99 = Inl RangeError"
    by (rule at_99) simp
  have c: \<open>json [(''gone'', JSUndefined), (''n'', JSNumber (- 12)),
            (''xs'', JSArray [JSUndefined, JSBoolean True])] 201
       = Inr \<lparr>body = ''{"n":-12,"xs":[null,true]}'',
              headers = [(''content-type'', ''application/json'')], status = 201\<rparr>\<close>
    by (rule at_201) simp
  show ?thesis
    by (intro conjI) (rule ser a b c)+
qed

text \<open>
  At the status 600, and at 100, the constructor throws; at a payload that holds a BigInt
  the serializer throws. No response is returned.
\<close>

theorem json_throws:
  "json [] 600 = Inl RangeError
   \<and> json [] 100 = Inl RangeError
   \<and> json [(''n'', JSBigInt 1)] 200 = Inl TypeError"
  by (simp add: json_def new_Response_def)

section \<open>The handler installed by \<open>serve\<close>\<close>

text \<open>
  C3. For every request, the \<open>fetch\<close> handler that \<open>serve\<close> installs makes one call,
  the upgrade of the request, whatever the registry, the middleware and the route say;
  it returns nothing when the upgrade succeeds and the plain 404 response \<open>Not Found\<close>
  otherwise. Every run of \<open>bunFetchHandler\<close> looks the path up in the registry, and the
  handler of \<open>serve\<close> never does: \<open>bunFetchHandler\<close> is not called by it.
\<close>

theorem serve_fetch_upgrade_only:
  "fetch (serve this) req srv =
     (if upgrade srv req then Inr None
      else Inr (Some \<lparr>body = ''Not Found'', headers = [], status = 404\<rparr>),
      [ServerUpgrade req])
   \<and> FindInRouteRegistry (url req) \<in> set (snd (bunFetchHandler this req srv))
   \<and> FindInRouteRegistry p \<notin> set (snd (fetch (serve this) req srv))"
  by (simp add: serve_def bunFetchHandler_unfold not_found_response returned_def
      split: option.split RouteType.split)

text \<open>
  A request for the registered path \<open>/health\<close>, at a transport that refuses and at one
  that accepts.
\<close>

theorem serve_fetch_upgrade_only_witness:
  "fetch (serve passing_driver) \<lparr>url = ''/health''\<rparr> refusing_server =
     (Inr (Some \<lparr>body = ''Not Found'', headers = [], status = 404\<rparr>),
      [ServerUpgrade \<lparr>url = ''/health''\<rparr>])
   \<and> fetch (serve passing_driver) \<lparr>url = ''/health''\<rparr> accepting_server =
     (Inr None, [ServerUpgrade \<lparr>url = ''/health''\<rparr>])"
  using serve_fetch_upgrade_only [of passing_driver "\<lparr>url = ''/health''\<rparr>" refusing_server]
    serve_fetch_upgrade_only [of passing_driver "\<lparr>url = ''/health''\<rparr>" accepting_server]
  by (simp add: refusing_server_def accepting_server_def)

section \<open>Dispatch of an unregistered path\<close>

text \<open>
  C4. For every dispatched path with no registry entry, dispatch returns the same
  not-found response whatever kind of route the exchange was meant for: status 404 with
  the plain body \<open>Not Found\<close> and no header, after the registry lookup and no other
  call. The response is not a JSON response.
\<close>

theorem unregistered_path_not_found:
  assumes "findInRouteRegistry this (url req) = None"
  shows "bunFetchHandler this req srv
       = (Inr (Some \<lparr>body = ''Not Found'', headers = [], status = 404\<rparr>),
          [FindInRouteRegistry (url req)])"
  using assms by (simp add: bunFetchHandler_unfold)

theorem unregistered_path_not_found_witness:
  "findInRouteRegistry passing_driver (url \<lparr>url = ''/missing''\<rparr>) = None
   \<and> bunFetchHandler passing_driver \<lparr>url = ''/missing''\<rparr> refusing_server
       = (Inr (Some \<lparr>body = ''Not Found'', headers = [], status = 404\<rparr>),
          [FindInRouteRegistry ''/missing''])"
proof -
  have missing: "findInRouteRegistry passing_driver (url \<lparr>url = ''/missing''\<rparr>) = None"
    by (simp add: passing_driver_def sample_registry_def)
  show ?thesis
    using missing unregistered_path_not_found [OF missing, of refusing_server]
    by simp
qed

text \<open>
  The response for the unregistered path \<open>/missing\<close> does not declare the content type
  \<open>application/json\<close>.
\<close>

theorem unregistered_path_not_json:
  "map_sum id (map_option json_content_type)
     (fst (bunFetchHandler passing_driver \<lparr>url = ''/missing''\<rparr> accepting_server))
   = Inr (Some False)"
  by (simp add: bunFetchHandler_unfold passing_driver_def sample_registry_def
      json_content_type_def)

section \<open>Dispatch of a request/response route\<close>

text \<open>
  C5. For every dispatch of a \<open>WEB\<close> route in which the middleware rejects (its result
  is \<open>false\<close>), the dispatcher returns the JSON response with status 403 and body
  \<open>{"message":"Forbidden."}\<close>, and the handler of the route is not called: the calls
  are the registry lookup and the middleware, nothing else.
\<close>

theorem web_route_rejected:
  assumes "findInRouteRegistry this (url req) = Some route"
    and "type route = WEB"
    and "fst (startMiddleware this (built_context this req srv route)) = JSBoolean False"
  shows \<open>fst (bunFetchHandler this req srv)
        = returned (json [(''message'', JSString ''Forbidden.'')] 403)
    \<and> fst (bunFetchHandler this req srv)
        = Inr (Some \<lparr>body = ''{"message":"Forbidden."}'',
                     headers = [(''content-type'', ''application/json'')], status = 403\<rparr>)
    \<and> map_sum id (map_option json_content_type) (fst (bunFetchHandler this req srv))
        = Inr (Some True)
    \<and> snd (bunFetchHandler this req srv)
        = [FindInRouteRegistry (url req), StartMiddleware (built_context this req srv route)]
    \<and> handle_calls (snd (bunFetchHandler this req srv)) = []\<close>
  using assms
  by (simp add: bunFetchHandler_unfold handleWebRoute_unfold json_forbidden returned_def
      json_content_type_def)

theorem web_route_rejected_witness:
  \<open>findInRouteRegistry rejecting_driver (url \<lparr>url = ''/health''\<rparr>) = Some health_route
   \<and> type health_route = WEB
   \<and> fst (startMiddleware rejecting_driver
        (built_context rejecting_driver \<lparr>url = ''/health''\<rparr> accepting_server health_route))
       = JSBoolean False
   \<and> fst (bunFetchHandler rejecting_driver \<lparr>url = ''/health''\<rparr> accepting_server)
       = Inr (Some \<lparr>body = ''{"message":"Forbidden."}'',
                    headers = [(''content-type'', ''application/json'')], status = 403\<rparr>)
   \<and> handle_calls (snd (bunFetchHandler rejecting_driver \<lparr>url = ''/health''\<rparr> accepting_server)) = []\<close>
proof -
  have rejects:
    "fst (startMiddleware rejecting_driver
       (built_context rejecting_driver \<lparr>url = ''/health''\<rparr> accepting_server health_route))
     = JSBoolean False"
    by (simp add: rejecting_driver_def)
  show ?thesis
    using sample_health_registered(2) sample_health_web rejects
      web_route_rejected [OF sample_health_registered(2) sample_health_web rejects]
    by blast
qed

text \<open>
  C7. For every dispatch of a \<open>WEB\<close> route in which the middleware accepts (its result
  is not \<open>false\<close>), the dispatcher calls \<open>route.handler.handle\<close> exactly once, with the
  context as the middleware left it, and returns what the handler returned, unchanged.
\<close>

theorem web_route_accepted:
  assumes "findInRouteRegistry this (url req) = Some route"
    and "type route = WEB"
    and "fst (startMiddleware this (built_context this req srv route)) \<noteq> JSBoolean False"
  shows "fst (bunFetchHandler this req srv)
        = Inr (handle (handler route) (snd (startMiddleware this (built_context this req srv route))))
    \<and> snd (bunFetchHandler this req srv)
        = [FindInRouteRegistry (url req), StartMiddleware (built_context this req srv route),
           Handle (snd (startMiddleware this (built_context this req srv route)))]
    \<and> handle_calls (snd (bunFetchHandler this req srv))
        = [snd (startMiddleware this (built_context this req srv route))]"
  using assms
  by (simp add: bunFetchHandler_unfold handleWebRoute_unfold)

theorem web_route_accepted_witness:
  \<open>findInRouteRegistry passing_driver (url \<lparr>url = ''/health''\<rparr>) = Some health_route
   \<and> type health_route = WEB
   \<and> fst (startMiddleware passing_driver
        (built_context passing_driver \<lparr>url = ''/health''\<rparr> accepting_server health_route))
       \<noteq> JSBoolean False
   \<and> fst (bunFetchHandler passing_driver \<lparr>url = ''/health''\<rparr> accepting_server)
       = Inr (Some \<lparr>body = ''{"status":"ok"}'', headers = [(''content-type'', ''application/json'')],
                    status = 200\<rparr>)
   \<and> length (handle_calls (snd (bunFetchHandler passing_driver \<lparr>url = ''/health''\<rparr> accepting_server)))
       = 1\<close>
proof -
  have accepts:
    "fst (startMiddleware passing_driver
       (built_context passing_driver \<lparr>url = ''/health''\<rparr> accepting_server health_route))
     \<noteq> JSBoolean False"
    by (simp add: passing_driver_def)
  have answer: \<open>handle (handler health_route) c
      = Some \<lparr>body = ''{"status":"ok"}'', headers = [(''content-type'', ''application/json'')],
              status = 200\<rparr>\<close> for c
    by (simp add: health_route_def)
  show ?thesis
    using sample_health_registered(1) sample_health_web accepts
      web_route_accepted [OF sample_health_registered(1) sample_health_web accepts]
    by (simp add: answer)
qed

section \<open>The context of a dispatch\<close>

text \<open>
  C10. For every dispatched exchange with a registered route, of either type, the
  context is built with \<open>authLevelForRequestedRoute\<close> equal to the \<open>authLevel\<close> of the
  resolved route and with the inbound request. The dispatcher gives the context away
  as it built it, and gives the handler of a \<open>WEB\<close> route the context exactly as the
  middleware left it: the dispatcher writes to neither field. Hence, when the middleware
  leaves the two fields alone, every context given away carries the route's level and
  the inbound request.
\<close>

theorem dispatcher_keeps_context:
  assumes "findInRouteRegistry this (url req) = Some route"
  shows "authLevelForRequestedRoute (built_context this req srv route) = authLevel route
    \<and> request (built_context this req srv route) = req
    \<and> passed_contexts (snd (bunFetchHandler this req srv))
        = (if type route = WEB
              \<and> fst (startMiddleware this (built_context this req srv route)) \<noteq> JSBoolean False
           then [built_context this req srv route,
                 snd (startMiddleware this (built_context this req srv route))]
           else [built_context this req srv route])
    \<and> ((\<forall>c. authLevelForRequestedRoute (snd (startMiddleware this c)) = authLevelForRequestedRoute c
            \<and> request (snd (startMiddleware this c)) = request c)
        \<longrightarrow> (\<forall>c \<in> set (passed_contexts (snd (bunFetchHandler this req srv))).
              authLevelForRequestedRoute c = authLevel route \<and> request c = req))"
  using assms
  by (cases "type route")
    (simp_all add: bunFetchHandler_unfold handleWebRoute_unfold handleWebSocketRoute_unfold
      built_context_def)

text \<open>
  The route \<open>/health\<close> behind a middleware that replaces the authorization driver of the
  context: the handler receives the changed context, with the level and the request of
  the dispatch.
\<close>

theorem dispatcher_keeps_context_witness:
  "findInRouteRegistry tagging_driver (url \<lparr>url = ''/health''\<rparr>) = Some health_route
   \<and> (\<forall>c. authLevelForRequestedRoute (snd (startMiddleware tagging_driver c))
            = authLevelForRequestedRoute c
          \<and> request (snd (startMiddleware tagging_driver c)) = request c)
   \<and> passed_contexts (snd (bunFetchHandler tagging_driver \<lparr>url = ''/health''\<rparr> accepting_server))
       = [\<lparr>authLevelForRequestedRoute = 0, request = \<lparr>url = ''/health''\<rparr>,
           server = accepting_server, WebSocketDriver = 1, AuthorizationDriver = 2,
           ServerDriverInterface = 3\<rparr>,
          \<lparr>authLevelForRequestedRoute = 0, request = \<lparr>url = ''/health''\<rparr>,
           server = accepting_server, WebSocketDriver = 1, AuthorizationDriver = 7,
           ServerDriverInterface = 3\<rparr>]
   \<and> map authLevelForRequestedRoute
        (passed_contexts (snd (bunFetchHandler tagging_driver \<lparr>url = ''/health''\<rparr> accepting_server)))
       = [authLevel health_route, authLevel health_route]
   \<and> map request
        (passed_contexts (snd (bunFetchHandler tagging_driver \<lparr>url = ''/health''\<rparr> accepting_server)))
       = [\<lparr>url = ''/health''\<rparr>, \<lparr>url = ''/health''\<rparr>]"
proof -
  have keeps:
    "\<forall>c. authLevelForRequestedRoute (snd (startMiddleware tagging_driver c))
            = authLevelForRequestedRoute c
        \<and> request (snd (startMiddleware tagging_driver c)) = request c"
    by (simp add: tagging_driver_def)
  note at_sample =
    dispatcher_keeps_context [OF sample_health_registered(3), of accepting_server]
  note given_away = at_sample [THEN conjunct2, THEN conjunct2, THEN conjunct1]
  note fields = at_sample [THEN conjunct2, THEN conjunct2, THEN conjunct2, THEN mp, OF keeps]
  have contexts:
    "passed_contexts (snd (bunFetchHandler tagging_driver \<lparr>url = ''/health''\<rparr> accepting_server))
     = [\<lparr>authLevelForRequestedRoute = 0, request = \<lparr>url = ''/health''\<rparr>,
         server = accepting_server, WebSocketDriver = 1, AuthorizationDriver = 2,
         ServerDriverInterface = 3\<rparr>,
        \<lparr>authLevelForRequestedRoute = 0, request = \<lparr>url = ''/health''\<rparr>,
         server = accepting_server, WebSocketDriver = 1, AuthorizationDriver = 7,
         ServerDriverInterface = 3\<rparr>]"
    unfolding given_away
    by (simp add: built_context_def tagging_driver_def health_route_def)
  have levels:
    "map authLevelForRequestedRoute
       (passed_contexts (snd (bunFetchHandler tagging_driver \<lparr>url = ''/health''\<rparr> accepting_server)))
     = [authLevel health_route, authLevel health_route]"
    using fields unfolding contexts by simp
  have requests:
    "map request
       (passed_contexts (snd (bunFetchHandler tagging_driver \<lparr>url = ''/health''\<rparr> accepting_server)))
     = [\<lparr>url = ''/health''\<rparr>, \<lparr>url = ''/health''\<rparr>]"
    using fields unfolding contexts by simp
  show ?thesis
    by (intro conjI) (rule sample_health_registered(3) keeps contexts levels requests)+
qed

section \<open>Dispatch of a web-socket route\<close>

text \<open>
  C1. The claim: for a \<open>WEB_SOCKET\<close> route whose middleware rejects the exchange, the
  dispatch produces the 403 rejection before any upgrade step and \<open>onUpgradeSuccess\<close> is
  not called. The code at the route \<open>/chat\<close> behind a middleware that rejects every
  exchange: the middleware is not consulted, no response is returned, the success of the
  upgrade is logged and \<open>onUpgradeSuccess\<close> is called.
\<close>

theorem web_socket_route_ignores_middleware:
  "fst (startMiddleware rejecting_driver
     (built_context rejecting_driver \<lparr>url = ''/chat''\<rparr> accepting_server chat_route))
     = JSBoolean False
   \<and> bunFetchHandler rejecting_driver \<lparr>url = ''/chat''\<rparr> accepting_server =
       (Inr None,
        [FindInRouteRegistry ''/chat'',
         LoggerInfo ''WebSocket route /chat connected'',
         LoggerInfo ''context initialized'',
         Handle \<lparr>authLevelForRequestedRoute = 1, request = \<lparr>url = ''/chat''\<rparr>,
                 server = accepting_server, WebSocketDriver = 1, AuthorizationDriver = 2,
                 ServerDriverInterface = 3\<rparr>,
         LoggerInfo ''Upgraded request to websocket.'',
         OnUpgradeSuccess])"
  by (simp add: bunFetchHandler_unfold handleWebSocketRoute_unfold built_context_def
      rejecting_driver_def sample_registry_def chat_route_def)

text \<open>
  C2. The claim: a dispatch of a \<open>WEB_SOCKET\<close> route tells a failed handshake from a
  successful one, calls \<open>onUpgradeFailed\<close> on failure and logs the failure at error
  level. The code at the route \<open>/chat\<close> on a transport that refuses every handshake
  (\<open>upgrade2WebSocket\<close> would answer 403 there): the transport is not asked, the success
  of the upgrade is logged at info level and \<open>onUpgradeSuccess\<close> is called; there is no
  call of \<open>onUpgradeFailed\<close> and no log at error level.
\<close>

theorem web_socket_route_refused_handshake:
  \<open>upgrade refusing_server \<lparr>url = ''/chat''\<rparr> = False
   \<and> fst (upgrade2WebSocket \<lparr>url = ''/chat''\<rparr> refusing_server)
       = map_sum id Inl (json [(''message'', JSString ''Forbidden.'')] 403)
   \<and> fst (upgrade2WebSocket \<lparr>url = ''/chat''\<rparr> refusing_server)
       = Inr (Inl \<lparr>body = ''{"message":"Forbidden."}'',
                   headers = [(''content-type'', ''application/json'')], status = 403\<rparr>)
   \<and> snd (bunFetchHandler passing_driver \<lparr>url = ''/chat''\<rparr> refusing_server) =
        [FindInRouteRegistry ''/chat'',
         LoggerInfo ''WebSocket route /chat connected'',
         LoggerInfo ''context initialized'',
         Handle \<lparr>authLevelForRequestedRoute = 1, request = \<lparr>url = ''/chat''\<rparr>,
                 server = refusing_server, WebSocketDriver = 1, AuthorizationDriver = 2,
                 ServerDriverInterface = 3\<rparr>,
         LoggerInfo ''Upgraded request to websocket.'',
         OnUpgradeSuccess]\<close>
  by (simp add: bunFetchHandler_unfold handleWebSocketRoute_unfold built_context_def
      passing_driver_def sample_registry_def chat_route_def refusing_server_def
      upgrade2WebSocket_def json_forbidden)

section \<open>Middleware chain\<close>

lemma run_from_first_rejection:
  "k < length links \<Longrightarrow>
   (\<And>j. j < k \<Longrightarrow> fst ((links ! j) (context_before links c j))) \<Longrightarrow>
   \<not> fst ((links ! k) (context_before links c k)) \<Longrightarrow>
   run_from i links c
     = (Rejected, snd ((links ! k) (context_before links c k)), [i..<i + Suc k])"
proof (induction links arbitrary: i c k)
  case Nil
  then show ?case by simp
next
  case (Cons l ls)
  show ?case
  proof (cases k)
    case 0
    with Cons.prems(3) show ?thesis
      by (cases "l c") simp
  next
    case (Suc k')
    from Cons.prems(2) [of 0] Suc have first: "fst (l c)" by simp
    have len: "k' < length ls" using Cons.prems(1) Suc by simp
    have before: "fst ((ls ! j) (context_before ls (snd (l c)) j))" if "j < k'" for j
      using Cons.prems(2) [of "Suc j"] that Suc by simp
    have at: "\<not> fst ((ls ! k') (context_before ls (snd (l c)) k'))"
      using Cons.prems(3) Suc by simp
    from Cons.IH [OF len before at, of "Suc i"]
    have rest: "run_from (Suc i) ls (snd (l c))
       = (Rejected, snd ((ls ! k') (context_before ls (snd (l c)) k')), [Suc i..<Suc i + Suc k'])"
      by simp
    show ?thesis
      using first rest Suc by (cases "l c") (simp add: upt_rec)
  qed
qed

lemma run_from_all_accept:
  "(\<And>j. j < length links \<Longrightarrow> fst ((links ! j) (context_before links c j))) \<Longrightarrow>
   run_from i links c
     = (Accepted, context_before links c (length links), [i..<i + length links])"
proof (induction links arbitrary: i c)
  case Nil
  then show ?case by simp
next
  case (Cons l ls)
  from Cons.prems [of 0] have first: "fst (l c)" by simp
  have later: "fst ((ls ! j) (context_before ls (snd (l c)) j))" if "j < length ls" for j
    using Cons.prems [of "Suc j"] that by simp
  from Cons.IH [OF later, of "Suc i"]
  have rest: "run_from (Suc i) ls (snd (l c))
     = (Accepted, context_before ls (snd (l c)) (length ls), [Suc i..<Suc i + length ls])"
    by simp
  show ?case
    using first rest by (cases "l c") (simp add: upt_rec)
qed

text \<open>
  C8. For every chain run on one exchange, the links execute in registration order,
  each on the context as the link before it left it. If link \<open>k\<close> (counted from 1) is
  the first to reject, the links that ran are the links 1 to \<open>k\<close>, once each and in
  order (so the links before \<open>k\<close> ran exactly once each, in order), the result is
  \<open>Rejected\<close>, and the context is the one that link \<open>k\<close> left: no link after \<open>k\<close> ran
  or touched it. If every link accepts, all the links ran, once each and in order, the
  context is the one the last link left, and the result is \<open>Accepted\<close>. A chain with no
  link gives \<open>Accepted\<close> and leaves the context as it was.
\<close>

theorem chain_runs_in_registration_order:
  "(1 \<le> k \<and> k \<le> length links
      \<and> (\<forall>j. 1 \<le> j \<and> j < k \<longrightarrow> link_accepts links c j)
      \<and> \<not> link_accepts links c k
    \<longrightarrow> run links c
        = (Rejected, snd ((links ! (k - 1)) (context_before links c (k - 1))), [1..<Suc k]))
   \<and> ((\<forall>j. 1 \<le> j \<and> j \<le> length links \<longrightarrow> link_accepts links c j)
    \<longrightarrow> run links c
        = (Accepted, context_before links c (length links), [1..<Suc (length links)]))
   \<and> run [] c = (Accepted, c, [])"
proof (intro conjI impI)
  assume rejected: "1 \<le> k \<and> k \<le> length links
      \<and> (\<forall>j. 1 \<le> j \<and> j < k \<longrightarrow> link_accepts links c j)
      \<and> \<not> link_accepts links c k"
  then have "1 \<le> k" and "k \<le> length links" by simp_all
  then have len: "k - 1 < length links" by arith
  have before: "fst ((links ! j) (context_before links c j))" if "j < k - 1" for j
    using rejected that by (auto simp: link_accepts_def dest!: spec [of _ "Suc j"])
  have at: "\<not> fst ((links ! (k - 1)) (context_before links c (k - 1)))"
    using rejected by (simp add: link_accepts_def)
  from run_from_first_rejection [OF len before at, of 1] rejected
  show "run links c
      = (Rejected, snd ((links ! (k - 1)) (context_before links c (k - 1))), [1..<Suc k])"
    by (simp add: run_def)
next
  assume accepted: "\<forall>j. 1 \<le> j \<and> j \<le> length links \<longrightarrow> link_accepts links c j"
  have every: "fst ((links ! j) (context_before links c j))" if "j < length links" for j
    using accepted that by (auto simp: link_accepts_def dest!: spec [of _ "Suc j"])
  from run_from_all_accept [OF every, of 1]
  show "run links c
      = (Accepted, context_before links c (length links), [1..<Suc (length links)])"
    by (simp add: run_def)
next
  show "run [] c = (Accepted, c, [])"
    by (simp add: run_def)
qed

text \<open>
  The chain whose second link rejects stops there, with the counter at 11 and not at
  111; the two accepting links run first and second, with the counter at 2 and not at 1.
\<close>

theorem chain_runs_in_registration_order_witness:
  "link_accepts sample_links 0 1 \<and> \<not> link_accepts sample_links 0 2
   \<and> run sample_links 0 = (Rejected, 11, [1, 2])
   \<and> link_accepts passing_links 0 1 \<and> link_accepts passing_links 0 2
   \<and> run passing_links 0 = (Accepted, 2, [1, 2])
   \<and> run ([] :: nat MiddlewareLink list) 0 = (Accepted, 0, [])"
proof -
  have first: "link_accepts sample_links 0 1"
    by (simp add: link_accepts_def sample_links_def)
  have second: "\<not> link_accepts sample_links 0 2"
    by (simp add: link_accepts_def sample_links_def)
  have rejected: "1 \<le> (2::nat) \<and> 2 \<le> length sample_links
      \<and> (\<forall>j. 1 \<le> j \<and> j < 2 \<longrightarrow> link_accepts sample_links 0 j)
      \<and> \<not> link_accepts sample_links 0 2"
  proof (intro conjI allI impI)
    fix j :: nat assume "1 \<le> j \<and> j < 2"
    then have "j = 1" by simp
    with first show "link_accepts sample_links 0 j" by simp
  next
    show "\<not> link_accepts sample_links 0 2" by (rule second)
  qed (simp_all add: sample_links_def)
  have p1: "link_accepts passing_links 0 1"
    by (simp add: link_accepts_def passing_links_def)
  have p2: "link_accepts passing_links 0 2"
    by (simp add: link_accepts_def passing_links_def)
  have accepted: "\<forall>j. 1 \<le> j \<and> j \<le> length passing_links \<longrightarrow> link_accepts passing_links 0 j"
  proof (intro allI impI)
    fix j :: nat assume "1 \<le> j \<and> j \<le> length passing_links"
    then have "j = 1 \<or> j = 2" by (auto simp: passing_links_def)
    with p1 p2 show "link_accepts passing_links 0 j" by auto
  qed
  note at_sample = chain_runs_in_registration_order [of 2 sample_links 0]
  note at_passing = chain_runs_in_registration_order [of 0 passing_links 0]
  have r: "run sample_links 0 = (Rejected, 11, [1, 2])"
    using at_sample [THEN conjunct1, THEN mp, OF rejected]
    by (simp add: sample_links_def upt_rec)
  have a: "run passing_links 0 = (Accepted, 2, [1, 2])"
    using at_passing [THEN conjunct2, THEN conjunct1, THEN mp, OF accepted]
    by (simp add: passing_links_def upt_rec)
  have e: "run ([] :: nat MiddlewareLink list) 0 = (Accepted, 0, [])"
    by (rule at_sample [THEN conjunct2, THEN conjunct2])
  show ?thesis
    by (intro conjI) (rule first second r p1 p2 a e)+
qed

section \<open>Route registry\<close>

text \<open>
  C9. For every registry and every route whose path is already registered,
  \<open>register\<close> returns \<open>DuplicatePathError\<close> and leaves the registry as it was, so that
  \<open>resolve\<close> of the path still returns the route registered first.
\<close>

theorem register_duplicate_path:
  assumes "resolve registry (path route) = Some original"
  shows "fst (register registry route) = Inl DuplicatePathError
    \<and> snd (register registry route) = registry
    \<and> resolve (snd (register registry route)) (path route) = Some original"
  using assms by (simp add: register_def resolve_def)

theorem register_duplicate_path_witness:
  "resolve [''/health'' \<mapsto> health_route] (path (chat_route\<lparr>path := ''/health''\<rparr>)) = Some health_route
   \<and> fst (register [''/health'' \<mapsto> health_route] (chat_route\<lparr>path := ''/health''\<rparr>))
       = Inl DuplicatePathError
   \<and> resolve (snd (register [''/health'' \<mapsto> health_route] (chat_route\<lparr>path := ''/health''\<rparr>)))
       ''/health'' = Some health_route"
proof -
  have present:
    "resolve [''/health'' \<mapsto> health_route] (path (chat_route\<lparr>path := ''/health''\<rparr>)) = Some health_route"
    by (simp add: resolve_def)
  show ?thesis
    using present register_duplicate_path [OF present]
    by simp
qed

end
